theory Spec2Isabelle
  imports Main "HOL-Library.Word" "HOL-Library.Char_ord" "HOL-Library.List_Lexorder"
begin

section \<open>LlamaTUI: a shallow embedding of \<open>llamatui.py\<close>\<close>

text \<open>
  The program is one class, \<open>LlamaTUI\<close>, whose methods mutate the fields of \<open>self\<close>.
  The embedding passes the object explicitly: every method takes the state and returns
  the new one, together with the string it returns where it returns one.

  Python strings that come from the configuration, the operator or the file system are
  HOL strings; a \<open>char\<close> stands for a code point below 256. Lines of the server log
  are decoded from arbitrary bytes, so they are lists of code points (\<open>ustr\<close>).
  What the operating system, the terminal and the Python library answer during one call
  is collected in the record \<open>env\<close>.
\<close>

subsection \<open>Python's \<open>str\<close> of an integer\<close>

definition digit_char :: "nat \<Rightarrow> char" where
  "digit_char d = ''0123456789'' ! d"

function str_nat :: "nat \<Rightarrow> string" where
  "str_nat n = (if n < 10 then [digit_char n] else str_nat (n div 10) @ [digit_char (n mod 10)])"
  by pat_completeness auto
termination
  by (relation "measure id") auto

declare str_nat.simps [simp del]

definition py_str :: "int \<Rightarrow> string" where
  "py_str i = (if i < 0 then CHR ''-'' # str_nat (nat (- i)) else str_nat (nat i))"

subsection \<open>The configuration and the object state\<close>

text \<open>
  The dictionary \<open>self.config\<close> and the attributes that mirror it have the same eleven
  keys; both are values of the record \<open>settings\<close>.
\<close>

record settings =
  model_dir :: string
  backend :: string
  host_ip :: string
  port :: string
  allow_lan :: bool
  gpu_layers :: int
  n_threads :: int
  context_size :: int
  schedule_time :: string
  schedule_active :: bool
  llama_server_dir :: string

text \<open>A \<open>subprocess.Popen\<close> object, as far as the program looks at it.\<close>

record proc =
  pid :: nat

type_synonym ustr = "nat list"

definition LLAMA_SERVER_BIN :: string where
  "LLAMA_SERVER_BIN = ''llama-server''"

definition log_max_lines :: nat where
  "log_max_lines = 1000"

subsection \<open>The argument list of \<open>start_server\<close>\<close>

text \<open>
  Lines 245 to 262 of \<open>start_server\<close>: the list \<open>cmd\<close> handed to \<open>subprocess.Popen\<close>,
  from the attributes, the path of the binary and the resolved path of the model.
\<close>

definition start_cmd :: "settings \<Rightarrow> string \<Rightarrow> string \<Rightarrow> string list" where
  "start_cmd a llama_server_path model_path =
     (let cmd = [llama_server_path, ''-m'', model_path, ''--port'', port a];
          cmd = (if allow_lan a then cmd @ [''--host'', host_ip a]
                 else cmd @ [''--host'', ''127.0.0.1'']);
          cmd = (if (backend a = ''CUDA'' \<or> backend a = ''VULKAN'') \<and> gpu_layers a > 0
                 then cmd @ [''-ngl'', py_str (gpu_layers a)] else cmd);
          cmd = (if n_threads a > 0 then cmd @ [''-t'', py_str (n_threads a)] else cmd);
          cmd = (if context_size a > 0 then cmd @ [''-c'', py_str (context_size a)] else cmd)
      in cmd)"



subsection \<open>Exceptions and the environment\<close>

text \<open>
  Exceptions that no handler of the program catches leave \<open>run\<close>; they are the left
  summand of a result. \<open>UnicodeError\<close> stands for whatever a codec may raise.
\<close>

datatype py_error = IndexError | ValueError | UnicodeError

text \<open>What \<open>subprocess.Popen\<close> does: the child, \<open>FileNotFoundError\<close>, or another exception
  with its text.\<close>

datatype popen_result = Spawned proc | FileNotFound | SpawnError string

text \<open>What writing the settings file does: \<open>open\<close> may fail before the file is touched,
  \<open>pickle.dump\<close> may fail after \<open>open\<close> has truncated it.\<close>

datatype write_result = WriteOk | OpenFailed | DumpFailed

text \<open>
  The settings file holds a pickled dictionary. \<open>psettings\<close> is such a dictionary as far
  as the eleven keys go: a key is present with its value or absent. \<open>Garbage\<close> is a file
  that \<open>open\<close> or \<open>pickle.load\<close> rejects, or whose content is not a dictionary.
\<close>

record psettings =
  p_model_dir :: "string option"
  p_backend :: "string option"
  p_host_ip :: "string option"
  p_port :: "string option"
  p_allow_lan :: "bool option"
  p_gpu_layers :: "int option"
  p_n_threads :: "int option"
  p_context_size :: "int option"
  p_schedule_time :: "string option"
  p_schedule_active :: "bool option"
  p_llama_server_dir :: "string option"

datatype pickled = Garbage | Dict psettings

text \<open>The object \<open>self\<close>, and with it the content of the settings file (\<open>None\<close> when
  the file does not exist).\<close>

record tui =
  running :: bool
  server_process :: "proc option"
  running_model_path :: "string option"
  log_buffer :: "ustr list"
  show_log :: bool
  show_nvidia_smi :: bool
  config :: settings
  attrs :: settings
  active_field :: int
  selected_file_idx :: int
  file_offset :: int
  files :: "string list"
  msg_log :: string
  settings_file :: "pickled option"

text \<open>
  The answers of the world during one call or one iteration of the main loop:
  \<open>abspath\<close> is \<open>os.path.abspath\<close>, \<open>cpu_count\<close> is \<open>psutil.cpu_count(logical=True)\<close>,
  \<open>is_dir\<close> answers \<open>os.path.isdir\<close> and \<open>Path.exists() and Path.is_dir()\<close>,
  \<open>is_file\<close> answers \<open>os.path.exists() and os.path.isfile()\<close> and \<open>Path.is_file()\<close>,
  \<open>glob_gguf\<close> is \<open>Path.glob("*.gguf")\<close>, \<open>resolve\<close> is \<open>Path.resolve\<close>,
  \<open>killpg_wait\<close> is the outcome of \<open>os.killpg\<close> followed by \<open>wait(timeout=5)\<close>
  (the text of the exception, if any), \<open>terminate_wait\<close> tells whether
  \<open>terminate()\<close> followed by \<open>wait(timeout=5)\<close> returns, \<open>key\<close> is what \<open>getch\<close> returns,
  \<open>now\<close> is the clock as \<open>strftime("%H:%M")\<close>, \<open>getstr\<close> is the decoded text of the edit
  window (\<open>None\<close> when reading or decoding it raises), \<open>parse_int\<close> is \<open>int\<close> on a string
  (\<open>None\<close> for \<open>ValueError\<close>).
\<close>

record env =
  abspath :: "string \<Rightarrow> string"
  cpu_count :: int
  is_dir :: "string \<Rightarrow> bool"
  is_file :: "string \<Rightarrow> bool"
  glob_gguf :: "string \<Rightarrow> string list"
  resolve :: "string \<Rightarrow> string"
  popen :: "string list \<Rightarrow> popen_result"
  killpg_wait :: "string option"
  terminate_wait :: bool
  write_settings :: write_result
  win_h :: int
  win_w :: int
  key :: int
  now :: string
  getstr :: "string option"
  parse_int :: "string \<Rightarrow> int option"

subsection \<open>Library functions on strings, paths and lists\<close>

text \<open>\<open>str.isspace\<close> on one code point, and \<open>str.strip()\<close>.\<close>

definition py_isspace :: "nat \<Rightarrow> bool" where
  "py_isspace c =
     ((9 \<le> c \<and> c \<le> 13) \<or> (28 \<le> c \<and> c \<le> 32) \<or> c = 0x85 \<or> c = 0xA0 \<or> c = 0x1680
      \<or> (0x2000 \<le> c \<and> c \<le> 0x200A) \<or> c = 0x2028 \<or> c = 0x2029 \<or> c = 0x202F
      \<or> c = 0x205F \<or> c = 0x3000)"

definition strip_by :: "('a \<Rightarrow> bool) \<Rightarrow> 'a list \<Rightarrow> 'a list" where
  "strip_by sp xs = rev (dropWhile sp (rev (dropWhile sp xs)))"

definition ustrip :: "ustr \<Rightarrow> ustr" where
  "ustrip = strip_by py_isspace"

definition py_strip :: "string \<Rightarrow> string" where
  "py_strip = strip_by (\<lambda>c. py_isspace (of_char c))"

text \<open>\<open>Path.name\<close>: the last component of a path.\<close>

definition path_name :: "string \<Rightarrow> string" where
  "path_name p = rev (takeWhile (\<lambda>c. c \<noteq> CHR ''/'') (rev p))"

text \<open>\<open>os.path.join\<close> of two components (POSIX).\<close>

definition path_join :: "string \<Rightarrow> string \<Rightarrow> string" where
  "path_join a b =
     (if b \<noteq> [] \<and> hd b = CHR ''/'' then b
      else if a = [] \<or> last a = CHR ''/'' then a @ b
      else a @ ''/'' @ b)"

text \<open>The subscript \<open>xs[i]\<close> of a Python list: from the front for \<open>i\<close> from 0, from the back for
  a negative \<open>i\<close>, and \<open>IndexError\<close> beyond either end.\<close>

definition py_index :: "'a list \<Rightarrow> int \<Rightarrow> py_error + 'a" where
  "py_index xs i =
     (if 0 \<le> i \<and> i < int (length xs) then Inr (xs ! nat i)
      else if i < 0 \<and> - int (length xs) \<le> i then Inr (xs ! nat (int (length xs) + i))
      else Inl IndexError)"

text \<open>\<open>xs.index(x)\<close>: the first position of \<open>x\<close>, \<open>ValueError\<close> when it is absent.\<close>

fun list_index :: "'a list \<Rightarrow> 'a \<Rightarrow> py_error + nat" where
  "list_index [] x = Inl ValueError"
| "list_index (y # ys) x =
     (if y = x then Inr 0
      else (case list_index ys x of Inl err \<Rightarrow> Inl err | Inr k \<Rightarrow> Inr (Suc k)))"

definition is_digit_char :: "char \<Rightarrow> bool" where
  "is_digit_char c = (c \<in> set ''0123456789'')"

subsection \<open>Decoding a line of the child's output\<close>

text \<open>
  \<open>line.decode(sys.getdefaultencoding(), errors='replace')\<close>: the default encoding of
  Python 3 is UTF-8. An ill-formed sequence becomes U+FFFD: an invalid start byte alone,
  a lead byte with the continuation bytes that are valid so far, or everything that is
  left when the data ends inside a sequence. \<open>utf8_first ch rest\<close> decodes the sequence
  that starts with \<open>ch\<close> and returns the code point and how many bytes of \<open>rest\<close> it took.
\<close>

type_synonym byte = "8 word"

definition REPLACEMENT :: nat where
  "REPLACEMENT = 0xFFFD"

definition is_cont :: "byte \<Rightarrow> bool" where
  "is_cont b = (0x80 \<le> b \<and> b < 0xC0)"

definition cont_bits :: "byte \<Rightarrow> nat" where
  "cont_bits b = unat b - 0x80"

definition bad_second :: "byte \<Rightarrow> byte \<Rightarrow> bool" where
  "bad_second ch c2 =
     (\<not> is_cont c2
      \<or> (ch = 0xE0 \<and> c2 < 0xA0) \<or> (ch = 0xED \<and> 0xA0 \<le> c2)
      \<or> (ch = 0xF0 \<and> c2 < 0x90) \<or> (ch = 0xF4 \<and> 0x90 \<le> c2))"

definition utf8_first :: "byte \<Rightarrow> byte list \<Rightarrow> nat \<times> nat" where
  "utf8_first ch rest =
     (if ch < 0x80 then (unat ch, 0)
      else if ch < 0xC2 then (REPLACEMENT, 0)
      else if ch < 0xE0 then
        (case rest of
           [] \<Rightarrow> (REPLACEMENT, 0)
         | c2 # _ \<Rightarrow>
             if is_cont c2 then ((unat ch - 0xC0) * 64 + cont_bits c2, 1)
             else (REPLACEMENT, 0))
      else if ch < 0xF0 then
        (case rest of
           [] \<Rightarrow> (REPLACEMENT, 0)
         | [c2] \<Rightarrow> if bad_second ch c2 then (REPLACEMENT, 0) else (REPLACEMENT, 1)
         | c2 # c3 # _ \<Rightarrow>
             if bad_second ch c2 then (REPLACEMENT, 0)
             else if \<not> is_cont c3 then (REPLACEMENT, 1)
             else ((unat ch - 0xE0) * 4096 + cont_bits c2 * 64 + cont_bits c3, 2))
      else if ch < 0xF5 then
        (case rest of
           [] \<Rightarrow> (REPLACEMENT, 0)
         | [c2] \<Rightarrow> if bad_second ch c2 then (REPLACEMENT, 0) else (REPLACEMENT, 1)
         | [c2, c3] \<Rightarrow>
             if bad_second ch c2 then (REPLACEMENT, 0)
             else if \<not> is_cont c3 then (REPLACEMENT, 1)
             else (REPLACEMENT, 2)
         | c2 # c3 # c4 # _ \<Rightarrow>
             if bad_second ch c2 then (REPLACEMENT, 0)
             else if \<not> is_cont c3 then (REPLACEMENT, 1)
             else if \<not> is_cont c4 then (REPLACEMENT, 2)
             else ((unat ch - 0xF0) * 262144 + cont_bits c2 * 4096
                   + cont_bits c3 * 64 + cont_bits c4, 3))
      else (REPLACEMENT, 0))"

fun utf8_replace :: "byte list \<Rightarrow> ustr" where
  "utf8_replace [] = []"
| "utf8_replace (ch # rest) =
     fst (utf8_first ch rest) # utf8_replace (drop (snd (utf8_first ch rest)) rest)"

text \<open>The codec as the reader calls it: with \<open>errors='replace'\<close> it never raises.\<close>

definition decode_default :: "byte list \<Rightarrow> py_error + ustr" where
  "decode_default line = Inr (utf8_replace line)"

subsection \<open>\<open>_log_reader_thread\<close>\<close>

text \<open>
  The body of the \<open>for\<close> loop, on one line read from the child's standard error: the
  \<open>try\<close> block decodes and strips the line and appends it when it is not empty, dropping the
  head of the buffer when the buffer has grown beyond \<open>log_max_lines\<close>; \<open>except Exception:
  pass\<close> leaves the buffer as it is. The codec is a parameter. The thread is started by
  \<open>start_server\<close> right after the process exists, so its guard on \<open>self.server_process\<close>
  holds when it runs.
\<close>

definition log_reader_step ::
  "(byte list \<Rightarrow> py_error + ustr) \<Rightarrow> ustr list \<Rightarrow> byte list \<Rightarrow> ustr list" where
  "log_reader_step decode buf line =
     (case decode line of
        Inl _ \<Rightarrow> buf
      | Inr decoded \<Rightarrow>
          (let line_str = ustrip decoded in
           if line_str \<noteq> [] then
             (let buf = buf @ [line_str] in
              if length buf > log_max_lines then tl buf else buf)
           else buf))"

text \<open>The loop over the lines that \<open>readline\<close> returns until the stream ends.\<close>

definition log_reader_loop ::
  "(byte list \<Rightarrow> py_error + ustr) \<Rightarrow> ustr list \<Rightarrow> byte list list \<Rightarrow> ustr list" where
  "log_reader_loop decode buf lines = foldl (log_reader_step decode) buf lines"

subsection \<open>\<open>datetime.strptime(t, "%H:%M")\<close>\<close>

text \<open>
  The library turns the format into the regular expression
  \<open>(?P<H>2[0-3]|[0-1]\d|\d):(?P<M>[0-5]\d|\d)\<close>, matches it at the start of the text and
  raises \<open>ValueError\<close> when it does not match or when text is left after the match.
  Each function below returns what is left of the text after each alternative that
  matches, in the order in which the matcher tries them; the first entry is the match
  the library takes. On code points below 256, \<open>\d\<close> is a digit from 0 to 9.
\<close>

definition re_H :: "string \<Rightarrow> string list" where
  "re_H t =
     (case t of c1 # c2 # r \<Rightarrow> if c1 = CHR ''2'' \<and> c2 \<in> set ''0123'' then [r] else [] | _ \<Rightarrow> [])
     @ (case t of c1 # c2 # r \<Rightarrow> if c1 \<in> set ''01'' \<and> is_digit_char c2 then [r] else [] | _ \<Rightarrow> [])
     @ (case t of c1 # r \<Rightarrow> if is_digit_char c1 then [r] else [] | _ \<Rightarrow> [])"

definition re_colon :: "string \<Rightarrow> string list" where
  "re_colon t = (case t of c # r \<Rightarrow> if c = CHR '':'' then [r] else [] | _ \<Rightarrow> [])"

definition re_M :: "string \<Rightarrow> string list" where
  "re_M t =
     (case t of c1 # c2 # r \<Rightarrow> if c1 \<in> set ''012345'' \<and> is_digit_char c2 then [r] else [] | _ \<Rightarrow> [])
     @ (case t of c1 # r \<Rightarrow> if is_digit_char c1 then [r] else [] | _ \<Rightarrow> [])"

definition re_HM :: "string \<Rightarrow> string list" where
  "re_HM t = concat (map (\<lambda>r1. concat (map re_M (re_colon r1))) (re_H t))"

definition strptime_HM :: "string \<Rightarrow> py_error + unit" where
  "strptime_HM t =
     (case re_HM t of
        [] \<Rightarrow> Inl ValueError
      | r # _ \<Rightarrow> if r \<noteq> [] then Inl ValueError else Inr ())"

text \<open>
  The grammar as the specification words it, "HH:MM": two digits of an hour from 00 to 23,
  a colon, two digits of a minute from 00 to 59.
\<close>

definition spec_hhmm_grammar :: "string \<Rightarrow> bool" where
  "spec_hhmm_grammar t =
     (case t of
        [h1, h2, c, m1, m2] \<Rightarrow>
          ((h1 \<in> set ''01'' \<and> is_digit_char h2) \<or> (h1 = CHR ''2'' \<and> h2 \<in> set ''0123''))
          \<and> c = CHR '':'' \<and> m1 \<in> set ''012345'' \<and> is_digit_char m2
      | _ \<Rightarrow> False)"

subsection \<open>Persistence\<close>

definition sync_config_to_attributes :: "tui \<Rightarrow> tui" where
  "sync_config_to_attributes s = s\<lparr>attrs := config s\<rparr>"

definition sync_attributes_to_config :: "tui \<Rightarrow> tui" where
  "sync_attributes_to_config s = s\<lparr>config := attrs s\<rparr>"

text \<open>\<open>pickle.dump(self.config, f)\<close>: every key is written.\<close>

definition dump :: "settings \<Rightarrow> psettings" where
  "dump c =
     \<lparr>p_model_dir = Some (model_dir c), p_backend = Some (backend c),
      p_host_ip = Some (host_ip c), p_port = Some (port c),
      p_allow_lan = Some (allow_lan c), p_gpu_layers = Some (gpu_layers c),
      p_n_threads = Some (n_threads c), p_context_size = Some (context_size c),
      p_schedule_time = Some (schedule_time c),
      p_schedule_active = Some (schedule_active c),
      p_llama_server_dir = Some (llama_server_dir c)\<rparr>"

text \<open>\<open>settings.get(key, default_value)\<close>.\<close>

definition dict_get :: "'a option \<Rightarrow> 'a \<Rightarrow> 'a" where
  "dict_get v default_value = (case v of Some x \<Rightarrow> x | None \<Rightarrow> default_value)"

text \<open>The loop of \<open>load_settings\<close> over the keys of \<open>self.config\<close>.\<close>

definition overlay :: "psettings \<Rightarrow> settings \<Rightarrow> settings" where
  "overlay p c =
     \<lparr>model_dir = dict_get (p_model_dir p) (model_dir c),
      backend = dict_get (p_backend p) (backend c),
      host_ip = dict_get (p_host_ip p) (host_ip c),
      port = dict_get (p_port p) (port c),
      allow_lan = dict_get (p_allow_lan p) (allow_lan c),
      gpu_layers = dict_get (p_gpu_layers p) (gpu_layers c),
      n_threads = dict_get (p_n_threads p) (n_threads c),
      context_size = dict_get (p_context_size p) (context_size c),
      schedule_time = dict_get (p_schedule_time p) (schedule_time c),
      schedule_active = dict_get (p_schedule_active p) (schedule_active c),
      llama_server_dir = dict_get (p_llama_server_dir p) (llama_server_dir c)\<rparr>"

definition save_settings :: "env \<Rightarrow> tui \<Rightarrow> tui" where
  "save_settings e s =
     (let s = sync_attributes_to_config s in
      case write_settings e of
        WriteOk \<Rightarrow> s\<lparr>settings_file := Some (Dict (dump (config s)))\<rparr>
      | OpenFailed \<Rightarrow> s
      | DumpFailed \<Rightarrow> s\<lparr>settings_file := Some Garbage\<rparr>)"

definition load_settings :: "env \<Rightarrow> tui \<Rightarrow> tui" where
  "load_settings e s =
     (let s = s\<lparr>msg_log := []\<rparr>;
          s = (case settings_file s of
                 Some content \<Rightarrow>
                   (case content of
                      Dict settings \<Rightarrow>
                        (let s = s\<lparr>config := overlay settings (config s)\<rparr>;
                             s = sync_config_to_attributes s
                         in s\<lparr>msg_log := ''Settings loaded from config.dat.''\<rparr>)
                    | Garbage \<Rightarrow> s\<lparr>msg_log := ''Error loading settings. Using defaults.''\<rparr>)
               | None \<Rightarrow> s\<lparr>msg_log := ''No persistent settings found. Using defaults.''\<rparr>)
      in save_settings e s)"

subsection \<open>\<open>refresh_file_list\<close>\<close>

definition refresh_file_list :: "env \<Rightarrow> tui \<Rightarrow> tui" where
  "refresh_file_list e s =
     (let path = model_dir (attrs s);
          s = s\<lparr>files := []\<rparr>
      in if is_dir e path then
           s\<lparr>files := sort_key path_name (filter (is_file e) (glob_gguf e path)),
             selected_file_idx := 0, file_offset := 0\<rparr>
         else s\<lparr>msg_log := ''Error: Directory not found: '' @ path\<rparr>)"

subsection \<open>\<open>kill_server\<close> and \<open>start_server\<close>\<close>

definition kill_server :: "env \<Rightarrow> tui \<Rightarrow> string \<times> tui" where
  "kill_server e s =
     (case server_process s of
        Some p \<Rightarrow>
          (case killpg_wait e of
             None \<Rightarrow>
               (''Server stopped and cache cleared.'',
                s\<lparr>server_process := None, running_model_path := None, log_buffer := []\<rparr>)
           | Some err \<Rightarrow>
               if terminate_wait e then
                 (''Server stopped (fallback).'',
                  s\<lparr>server_process := None, running_model_path := None, log_buffer := []\<rparr>)
               else (''Error stopping: '' @ err, s))
      | None \<Rightarrow> (''No server running.'', s))"

text \<open>
  \<open>start_server\<close> returns its message and the new state. The read
  \<open>self.files[self.selected_file_idx]\<close> is outside every \<open>try\<close>: its \<open>IndexError\<close>
  would leave the method.
\<close>

definition start_server :: "env \<Rightarrow> tui \<Rightarrow> py_error + string \<times> tui" where
  "start_server e s =
     (if server_process s \<noteq> None then Inr (''Server already running. Press 'K' first.'', s)
      else if files s = [] then Inr (''No models found in current directory.'', s)
      else
        (let llama_server_path = path_join (llama_server_dir (attrs s)) LLAMA_SERVER_BIN in
         if \<not> is_file e llama_server_path then
           Inr (''Error: '' @ [CHR 0x27] @ llama_server_path @ [CHR 0x27]
                @ '' not found or is not a file.'', s)
         else
           (case py_index (files s) (selected_file_idx s) of
              Inl err \<Rightarrow> Inl err
            | Inr current_file_obj \<Rightarrow>
                (let model_path = resolve e current_file_obj;
                     cmd = start_cmd (attrs s) llama_server_path model_path
                 in case popen e cmd of
                      Spawned p \<Rightarrow>
                        Inr (''SERVING: '' @ path_name current_file_obj
                             @ '' - Press 'V' to view log.'',
                             s\<lparr>server_process := Some p, log_buffer := [],
                               running_model_path := Some current_file_obj\<rparr>)
                    | FileNotFound \<Rightarrow>
                        Inr (''Error: '' @ llama_server_path @ '' binary not found.'', s)
                    | SpawnError msg \<Rightarrow> Inr (''Error: '' @ msg, s)))))"

text \<open>A caller that stores the message: \<open>self.msg_log = self.start_server()\<close>.\<close>

definition start_and_report :: "env \<Rightarrow> tui \<Rightarrow> py_error + tui" where
  "start_and_report e s =
     (case start_server e s of
        Inl err \<Rightarrow> Inl err
      | Inr (msg, s') \<Rightarrow> Inr (s'\<lparr>msg_log := msg\<rparr>))"

definition check_schedule :: "env \<Rightarrow> tui \<Rightarrow> py_error + tui" where
  "check_schedule e s =
     (if schedule_active (attrs s) \<and> server_process s = None then
        (if now e = schedule_time (attrs s) then start_and_report e s else Inr s)
      else Inr s)"

subsection \<open>The editing prompt\<close>

definition input_string :: "env \<Rightarrow> string \<Rightarrow> string" where
  "input_string e default_val =
     (let box = (case getstr e of Some raw \<Rightarrow> py_strip raw | None \<Rightarrow> [])
      in if box \<noteq> [] then box else default_val)"

text \<open>The two places that change the directory of the server binary (key D, field 10).\<close>

definition edit_server_dir :: "env \<Rightarrow> tui \<Rightarrow> tui" where
  "edit_server_dir e s =
     (let new_server_dir = input_string e (llama_server_dir (attrs s)) in
      if is_dir e new_server_dir then
        (let s = s\<lparr>attrs := (attrs s)\<lparr>llama_server_dir := abspath e new_server_dir\<rparr>\<rparr>;
             s = s\<lparr>msg_log := ''Llama-server directory updated to: ''
                            @ llama_server_dir (attrs s)\<rparr>
         in save_settings e s)
      else s\<lparr>msg_log := ''Invalid directory path.''\<rparr>)"

text \<open>Field 9 of the ENTER key: the schedule.\<close>

definition edit_schedule :: "env \<Rightarrow> tui \<Rightarrow> tui" where
  "edit_schedule e s =
     (if schedule_active (attrs s) then
        save_settings e
          (s\<lparr>attrs := (attrs s)\<lparr>schedule_active := False\<rparr>, msg_log := ''Schedule disabled.''\<rparr>)
      else
        (let t = input_string e ''08:00'' in
         case strptime_HM t of
           Inr _ \<Rightarrow>
             save_settings e
               (s\<lparr>attrs := (attrs s)\<lparr>schedule_time := t, schedule_active := True\<rparr>,
                  msg_log := ''Scheduled for '' @ t\<rparr>)
         | Inl _ \<Rightarrow> s\<lparr>msg_log := ''Invalid time format. Use HH:MM''\<rparr>))"

text \<open>Fields 3, 4 and 5: a number with a lower bound.\<close>

definition edit_number ::
  "env \<Rightarrow> int \<Rightarrow> int \<Rightarrow> (int \<Rightarrow> tui \<Rightarrow> tui) \<Rightarrow> (int \<Rightarrow> string) \<Rightarrow> string \<Rightarrow> tui \<Rightarrow> tui" where
  "edit_number e current lower store done_msg low_msg s =
     (let val = input_string e (py_str current) in
      case parse_int e val of
        Some n \<Rightarrow>
          if n \<ge> lower then save_settings e ((store n s)\<lparr>msg_log := done_msg n\<rparr>)
          else s\<lparr>msg_log := low_msg\<rparr>
      | None \<Rightarrow> s\<lparr>msg_log := ''Invalid number format.''\<rparr>)"

subsection \<open>The main loop\<close>

definition modes :: "string list" where
  "modes = [''CPU'', ''CUDA'', ''VULKAN'']"

text \<open>The ENTER key, by the field that has the focus.\<close>

definition on_enter :: "env \<Rightarrow> tui \<Rightarrow> py_error + tui" where
  "on_enter e s =
     (if active_field s = 1 then
        (let new_dir = input_string e (model_dir (attrs s)) in
         if is_dir e new_dir then
           (let s = s\<lparr>attrs := (attrs s)\<lparr>model_dir := abspath e new_dir\<rparr>\<rparr>;
                s = refresh_file_list e s;
                s = s\<lparr>msg_log := ''Directory updated.''\<rparr>
            in Inr (save_settings e s))
         else Inr (s\<lparr>msg_log := ''Invalid directory path.''\<rparr>))
      else if active_field s = 2 then
        (case list_index modes (backend (attrs s)) of
           Inl err \<Rightarrow> Inl err
         | Inr curr_idx \<Rightarrow>
             Inr (save_settings e
                    (s\<lparr>attrs := (attrs s)\<lparr>backend := modes ! ((curr_idx + 1) mod length modes)\<rparr>\<rparr>)))
      else if active_field s = 3 then
        Inr (edit_number e (gpu_layers (attrs s)) 0
               (\<lambda>n s. s\<lparr>attrs := (attrs s)\<lparr>gpu_layers := n\<rparr>\<rparr>)
               (\<lambda>n. ''GPU Layers set to '' @ py_str n @ '' (0=auto/CPU only).'')
               ''Value must be 0 or greater.'' s)
      else if active_field s = 4 then
        Inr (edit_number e (n_threads (attrs s)) 1
               (\<lambda>n s. s\<lparr>attrs := (attrs s)\<lparr>n_threads := n\<rparr>\<rparr>)
               (\<lambda>n. ''CPU Threads set to '' @ py_str n @ ''.'')
               ''Value must be 1 or greater.'' s)
      else if active_field s = 5 then
        Inr (edit_number e (context_size (attrs s)) 512
               (\<lambda>n s. s\<lparr>attrs := (attrs s)\<lparr>context_size := n\<rparr>\<rparr>)
               (\<lambda>n. ''Context Size set to '' @ py_str n @ ''.'')
               ''Value must be at least 512.'' s)
      else if active_field s = 6 then
        Inr (save_settings e
               (s\<lparr>attrs := (attrs s)\<lparr>host_ip := input_string e (host_ip (attrs s))\<rparr>\<rparr>))
      else if active_field s = 7 then
        Inr (save_settings e
               (s\<lparr>attrs := (attrs s)\<lparr>port := input_string e (port (attrs s))\<rparr>\<rparr>))
      else if active_field s = 8 then
        Inr (save_settings e (s\<lparr>attrs := (attrs s)\<lparr>allow_lan := \<not> allow_lan (attrs s)\<rparr>\<rparr>))
      else if active_field s = 9 then Inr (edit_schedule e s)
      else if active_field s = 10 then Inr (edit_server_dir e s)
      else Inr s)"

text \<open>The chain of \<open>if\<close>/\<open>elif\<close> on the key (\<open>KEY_UP\<close> is 259, \<open>KEY_DOWN\<close> is 258).\<close>

definition dispatch_key :: "env \<Rightarrow> tui \<Rightarrow> py_error + tui" where
  "dispatch_key e s =
     (let k = key e in
      if k = 113 \<or> k = 81 then
        Inr ((save_settings e (snd (kill_server e s)))\<lparr>running := False\<rparr>)
      else if k = 107 \<or> k = 75 then
        (case kill_server e s of (msg, s') \<Rightarrow> Inr (s'\<lparr>msg_log := msg\<rparr>))
      else if k = 115 \<or> k = 83 then start_and_report e s
      else if k = 118 \<or> k = 86 then
        (if server_process s \<noteq> None then Inr (s\<lparr>show_log := True\<rparr>)
         else Inr (s\<lparr>msg_log := ''Server is not running. Start it first.''\<rparr>))
      else if k = 110 \<or> k = 78 then Inr (s\<lparr>show_nvidia_smi := True\<rparr>)
      else if k = 100 \<or> k = 68 then Inr (edit_server_dir e s)
      else if k = 9 then Inr (s\<lparr>active_field := (active_field s + 1) mod 11\<rparr>)
      else if k = 259 then
        (if active_field s = 0 \<and> selected_file_idx s > 0
         then Inr (s\<lparr>selected_file_idx := selected_file_idx s - 1\<rparr>) else Inr s)
      else if k = 258 then
        (if active_field s = 0 \<and> selected_file_idx s < int (length (files s)) - 1
         then Inr (s\<lparr>selected_file_idx := selected_file_idx s + 1\<rparr>) else Inr s)
      else if k = 10 then on_enter e s
      else Inr s)"

text \<open>
  One iteration of \<open>while self.running\<close>. Drawing changes no field but \<open>file_offset\<close>,
  which follows the cursor; it is not modelled otherwise.
\<close>

definition run_iter :: "env \<Rightarrow> tui \<Rightarrow> py_error + tui" where
  "run_iter e s =
     (if show_nvidia_smi s then
        Inr (if key e \<noteq> - 1 then s\<lparr>show_nvidia_smi := False\<rparr> else s)
      else if show_log s then
        Inr (if key e \<noteq> - 1 then s\<lparr>show_log := False\<rparr> else s)
      else if win_h e < 20 \<or> win_w e < 80 then Inr s
      else
        (let list_h = win_h e - 8;
             max_items = list_h - 2;
             s = (if selected_file_idx s < file_offset s
                  then s\<lparr>file_offset := selected_file_idx s\<rparr>
                  else if selected_file_idx s \<ge> file_offset s + max_items
                  then s\<lparr>file_offset := selected_file_idx s - max_items + 1\<rparr>
                  else s)
         in case check_schedule e s of
              Inl err \<Rightarrow> Inl err
            | Inr s \<Rightarrow> dispatch_key e s))"

subsection \<open>\<open>__init__\<close> and the states the program reaches\<close>

definition default_settings :: "env \<Rightarrow> settings" where
  "default_settings e =
     \<lparr>model_dir = abspath e ''./'', backend = ''CPU'', host_ip = ''0.0.0.0'',
      port = ''8080'', allow_lan = False, gpu_layers = 0, n_threads = cpu_count e,
      context_size = 4096, schedule_time = [], schedule_active = False,
      llama_server_dir = abspath e ''./''\<rparr>"

definition init_tui :: "env \<Rightarrow> pickled option \<Rightarrow> tui" where
  "init_tui e disk =
     (let s = \<lparr>running = True, server_process = None, running_model_path = None,
               log_buffer = [], show_log = False, show_nvidia_smi = False,
               config = default_settings e, attrs = default_settings e,
               active_field = 0, selected_file_idx = 0, file_offset = 0, files = [],
               msg_log = [], settings_file = disk\<rparr>;
          s = sync_config_to_attributes s;
          s = load_settings e s;
          s = s\<lparr>active_field := 0, selected_file_idx := 0, file_offset := 0, files := []\<rparr>;
          s = (if msg_log s = []
               then s\<lparr>msg_log := ''Welcome. Select a model and press 'S' to serve.''\<rparr> else s)
      in refresh_file_list e s)"

text \<open>
  The states of the object between two iterations of the loop: the state after
  \<open>__init__\<close>, every state an iteration produces without an uncaught exception, and
  every state in which the reader thread has handled some more lines meanwhile.
\<close>

inductive reachable :: "tui \<Rightarrow> bool" where
  reach_init: "reachable (init_tui e disk)"
| reach_iter: "reachable s \<Longrightarrow> running s \<Longrightarrow> run_iter e s = Inr s' \<Longrightarrow> reachable s'"
| reach_log: "reachable s \<Longrightarrow>
     reachable (s\<lparr>log_buffer := log_reader_loop decode (log_buffer s) lines\<rparr>)"

subsection \<open>The lines the reader keeps\<close>

text \<open>
  Of the lines read, those that the loop appends: decoded without an exception and not
  empty once stripped, in the order read.
\<close>

definition kept_lines :: "(byte list \<Rightarrow> py_error + ustr) \<Rightarrow> byte list list \<Rightarrow> ustr list" where
  "kept_lines decode lines =
     concat (map (\<lambda>line. case decode line of
                            Inl _ \<Rightarrow> []
                          | Inr decoded \<Rightarrow> if ustrip decoded \<noteq> [] then [ustrip decoded] else [])
                 lines)"

subsection \<open>A sample environment and sample states\<close>

definition example_env :: env where
  "example_env =
     \<lparr>abspath = (\<lambda>p. if p = ''./'' then ''/models'' else p), cpu_count = 8,
      is_dir = (\<lambda>p. p = ''/models''), is_file = (\<lambda>p. p \<noteq> ''/models''),
      glob_gguf = (\<lambda>d. [''/models/b.gguf'', ''/models/a.gguf'']),
      resolve = (\<lambda>p. p), popen = (\<lambda>cmd. Spawned \<lparr>pid = 4242\<rparr>),
      killpg_wait = None, terminate_wait = True, write_settings = WriteOk,
      win_h = 24, win_w = 80, key = - 1, now = ''07:59'', getstr = None,
      parse_int = (\<lambda>t. None)\<rparr>"

definition example_settings :: settings where
  "example_settings =
     \<lparr>model_dir = ''/models'', backend = ''CPU'', host_ip = ''0.0.0.0'', port = ''8080'',
      allow_lan = False, gpu_layers = 8, n_threads = 8, context_size = 4096,
      schedule_time = [], schedule_active = False, llama_server_dir = ''/models''\<rparr>"

text \<open>A state with two models listed, the cursor on the second, and no server.\<close>

definition example_idle :: tui where
  "example_idle =
     \<lparr>running = True, server_process = None, running_model_path = None,
      log_buffer = [], show_log = False, show_nvidia_smi = False,
      config = example_settings, attrs = example_settings,
      active_field = 0, selected_file_idx = 1, file_offset = 0,
      files = [''/models/a.gguf'', ''/models/b.gguf''],
      msg_log = ''Directory updated.'', settings_file = None\<rparr>"

text \<open>The same with a server running and two lines in its log.\<close>

definition example_serving :: tui where
  "example_serving =
     example_idle\<lparr>server_process := Some \<lparr>pid = 4242\<rparr>,
                  running_model_path := Some ''/models/b.gguf'',
                  log_buffer := [[108, 111, 97, 100], [111, 107]]\<rparr>"

text \<open>A settings file written by an older version: it has the port and the backend only.\<close>

definition example_partial :: psettings where
  "example_partial =
     \<lparr>p_model_dir = None, p_backend = Some ''CUDA'', p_host_ip = None, p_port = Some ''9000'',
      p_allow_lan = None, p_gpu_layers = None, p_n_threads = None, p_context_size = None,
      p_schedule_time = None, p_schedule_active = None, p_llama_server_dir = None\<rparr>"

subsection \<open>The cursor of the model list\<close>

text \<open>The cursor is not negative, and it points into the list when the list is not empty.\<close>

definition selection_ok :: "tui \<Rightarrow> bool" where
  "selection_ok s =
     (0 \<le> selected_file_idx s
      \<and> (files s \<noteq> [] \<longrightarrow> selected_file_idx s < int (length (files s))))"

section \<open>Properties\<close>

subsection \<open>The text of an integer ends in a digit\<close>

lemma digit_char_is_digit: "d < 10 \<Longrightarrow> is_digit_char (digit_char d)"
proof -
  assume "d < 10"
  then have "d \<in> {0,1,2,3,4,5,6,7,8,9}" by auto
  then show ?thesis by (auto simp: is_digit_char_def digit_char_def)
qed

lemma str_nat_last: "str_nat n \<noteq> [] \<and> is_digit_char (last (str_nat n))"
proof (induction n rule: str_nat.induct)
  case (1 n)
  show ?case
    by (subst str_nat.simps, subst (2) str_nat.simps) (simp add: digit_char_is_digit)
qed

lemma py_str_last: "py_str i \<noteq> [] \<and> is_digit_char (last (py_str i))"
  using str_nat_last by (simp add: py_str_def)

lemma py_str_neq: "s = [] \<or> \<not> is_digit_char (last s) \<Longrightarrow> py_str i \<noteq> s"
  using py_str_last by metis

lemma py_str_flags [simp]:
  "py_str i \<noteq> ''--host''" "py_str i \<noteq> ''--port''" "py_str i \<noteq> ''-m''"
  "py_str i \<noteq> ''-ngl''" "py_str i \<noteq> ''-t''" "py_str i \<noteq> ''-c''"
  "''--host'' \<noteq> py_str i" "''--port'' \<noteq> py_str i" "''-m'' \<noteq> py_str i"
  "''-ngl'' \<noteq> py_str i" "''-t'' \<noteq> py_str i" "''-c'' \<noteq> py_str i"
  by (rule py_str_neq py_str_neq [symmetric], simp add: is_digit_char_def)+

subsection \<open>C1: the options of the child process\<close>



subsection \<open>C2: refreshing the list from a directory that is not there\<close>

text \<open>
  Claim C2 says that \<open>refresh_file_list\<close> on a directory that does not exist leaves the
  prior list of models as it was. The method empties the list before it looks at the
  directory: with two models listed and the directory gone, the list is empty afterwards.
\<close>

theorem refresh_missing_dir_counterexample:
  "files example_idle = [''/models/a.gguf'', ''/models/b.gguf'']
   \<and> \<not> is_dir (example_env\<lparr>is_dir := (\<lambda>p. False)\<rparr>) (model_dir (attrs example_idle))
   \<and> files (refresh_file_list (example_env\<lparr>is_dir := (\<lambda>p. False)\<rparr>) example_idle) = []"
  by (simp add: refresh_file_list_def example_idle_def example_env_def Let_def)

text \<open>
  Claim C2, amended. On a directory that does not exist or is not a directory,
  \<open>refresh_file_list\<close> reports the error in the status line, empties the list of models
  and leaves the cursor and the scroll offset as they were. The prior list survives a
  bad path only in the caller: on the directory field the ENTER key rejects a path that
  is not a directory before it touches the directory or calls the refresh, and changes
  nothing but the status line.
\<close>

theorem refresh_missing_dir:
  "(\<not> is_dir e (model_dir (attrs s)) \<longrightarrow>
      files (refresh_file_list e s) = []
      \<and> selected_file_idx (refresh_file_list e s) = selected_file_idx s
      \<and> file_offset (refresh_file_list e s) = file_offset s
      \<and> msg_log (refresh_file_list e s) = ''Error: Directory not found: '' @ model_dir (attrs s))
   \<and> (active_field s = 1 \<and> \<not> is_dir e (input_string e (model_dir (attrs s))) \<longrightarrow>
        on_enter e s = Inr (s\<lparr>msg_log := ''Invalid directory path.''\<rparr>))"
  by (simp add: refresh_file_list_def on_enter_def Let_def)

theorem refresh_missing_dir_witness:
  "\<not> is_dir (example_env\<lparr>is_dir := (\<lambda>p. False)\<rparr>) (model_dir (attrs example_idle))
   \<and> files (refresh_file_list (example_env\<lparr>is_dir := (\<lambda>p. False)\<rparr>) example_idle) = []
   \<and> selected_file_idx (refresh_file_list (example_env\<lparr>is_dir := (\<lambda>p. False)\<rparr>) example_idle) = 1
   \<and> msg_log (refresh_file_list (example_env\<lparr>is_dir := (\<lambda>p. False)\<rparr>) example_idle)
       = ''Error: Directory not found: /models''
   \<and> active_field (example_idle\<lparr>active_field := 1\<rparr>) = 1
   \<and> on_enter (example_env\<lparr>is_dir := (\<lambda>p. False)\<rparr>) (example_idle\<lparr>active_field := 1\<rparr>)
       = Inr (example_idle\<lparr>active_field := 1, msg_log := ''Invalid directory path.''\<rparr>)"
  using refresh_missing_dir [of "example_env\<lparr>is_dir := (\<lambda>p. False)\<rparr>" example_idle]
    refresh_missing_dir [of "example_env\<lparr>is_dir := (\<lambda>p. False)\<rparr>"
      "example_idle\<lparr>active_field := 1\<rparr>"]
  by (simp add: example_idle_def example_env_def example_settings_def)

subsection \<open>C3: the log buffer is bounded and first-in first-out\<close>

lemma kept_lines_Cons: "kept_lines dec (l # ls) = kept_lines dec [l] @ kept_lines dec ls"
  by (simp add: kept_lines_def)

lemma kept_lines_Nil: "kept_lines dec [] = []"
  by (simp add: kept_lines_def)

lemma push_drop:
  assumes "length buf \<le> m" "0 < m"
  shows "(if length (buf @ [x]) > m then tl (buf @ [x]) else buf @ [x])
           = drop (length (buf @ [x]) - m) (buf @ [x])"
proof (cases "length buf < m")
  case True
  then show ?thesis by simp
next
  case False
  with assms have "length (buf @ [x]) - m = Suc 0" by simp
  moreover from False have "length (buf @ [x]) > m" by simp
  ultimately show ?thesis by (simp only: if_True drop_Suc drop_0)
qed

lemma log_reader_step_drop:
  assumes "length buf \<le> log_max_lines"
  shows "log_reader_step dec buf line
       = drop (length (buf @ kept_lines dec [line]) - log_max_lines) (buf @ kept_lines dec [line])"
proof (cases "dec line")
  case (Inl err)
  with assms show ?thesis by (simp add: log_reader_step_def kept_lines_def)
next
  case (Inr d)
  show ?thesis
  proof (cases "ustrip d = []")
    case True
    with Inr assms show ?thesis by (simp add: log_reader_step_def kept_lines_def)
  next
    case False
    have "0 < log_max_lines" by (simp add: log_max_lines_def)
    from push_drop [OF assms this, of "ustrip d"] Inr False show ?thesis
      by (simp add: log_reader_step_def kept_lines_def Let_def)
  qed
qed

lemma log_reader_step_length:
  "length buf \<le> log_max_lines \<Longrightarrow> length (log_reader_step dec buf line) \<le> log_max_lines"
  by (auto simp: log_reader_step_def Let_def split: sum.splits)

lemma drop_excess_append:
  "drop (length (drop (length A - m) A @ xs) - m) (drop (length A - m) A @ xs)
     = drop (length (A @ xs) - m) (A @ xs)"
proof (cases "length A \<le> m")
  case True
  then show ?thesis by simp
next
  case False
  define k where "k = length A - m"
  from False have k: "k \<le> length A" "length A - k = m" by (simp_all add: k_def)
  have l: "length (drop k A @ xs) - m = length xs" using k by simp
  have r: "length (A @ xs) - m = k + length xs" using False by (simp add: k_def)
  from k have a: "length A = k + m" by simp
  have "drop (length xs) (drop k A @ xs) = drop (k + length xs) (A @ xs)"
    by (simp add: a add.commute)
  then show ?thesis unfolding k_def [symmetric] l r .
qed

lemma log_reader_loop_drop:
  "length buf \<le> log_max_lines \<Longrightarrow>
     log_reader_loop dec buf lines
       = drop (length (buf @ kept_lines dec lines) - log_max_lines) (buf @ kept_lines dec lines)"
proof (induction lines arbitrary: buf)
  case Nil
  then show ?case by (simp add: log_reader_loop_def kept_lines_Nil)
next
  case (Cons l ls)
  let ?b = "log_reader_step dec buf l"
  have len: "length ?b \<le> log_max_lines"
    using Cons.prems by (rule log_reader_step_length)
  have "log_reader_loop dec buf (l # ls) = log_reader_loop dec ?b ls"
    by (simp add: log_reader_loop_def)
  also have "\<dots> = drop (length (?b @ kept_lines dec ls) - log_max_lines) (?b @ kept_lines dec ls)"
    using len by (rule Cons.IH)
  also have "\<dots> = drop (length ((buf @ kept_lines dec [l]) @ kept_lines dec ls) - log_max_lines)
                      ((buf @ kept_lines dec [l]) @ kept_lines dec ls)"
    unfolding log_reader_step_drop [OF Cons.prems] by (rule drop_excess_append)
  finally show ?case by (simp add: kept_lines_Cons [of dec l ls])
qed

text \<open>
  Claim C3. Starting from a buffer of at most 1000 lines (it is empty when the server
  starts), after the reader has handled any sequence of lines the buffer has at most
  1000 lines, and it holds the last 1000 of the old lines followed by the lines kept, in
  their order: the lines dropped are the oldest. In particular a line appended to a full
  buffer evicts the head and leaves the other 999 lines in order before it. The states
  are those between two lines: inside one iteration the list has 1001 entries between
  \<open>append\<close> and \<open>pop(0)\<close>.
\<close>

theorem log_buffer_bounded_fifo:
  "length buf \<le> log_max_lines \<Longrightarrow>
     length (log_reader_loop dec buf lines) \<le> log_max_lines
     \<and> log_reader_loop dec buf lines
         = drop (length (buf @ kept_lines dec lines) - log_max_lines) (buf @ kept_lines dec lines)
     \<and> (length buf = log_max_lines \<and> kept_lines dec [line] = [l]
          \<longrightarrow> log_reader_step dec buf line = tl buf @ [l])"
proof (intro conjI impI)
  assume b: "length buf \<le> log_max_lines"
  show eq: "log_reader_loop dec buf lines
         = drop (length (buf @ kept_lines dec lines) - log_max_lines) (buf @ kept_lines dec lines)"
    using b by (rule log_reader_loop_drop)
  show "length (log_reader_loop dec buf lines) \<le> log_max_lines"
    unfolding eq by simp
  assume f: "length buf = log_max_lines \<and> kept_lines dec [line] = [l]"
  then have "buf \<noteq> []" by (auto simp: log_max_lines_def)
  with f show "log_reader_step dec buf line = tl buf @ [l]"
    unfolding log_reader_step_drop [OF b] by (simp add: drop_Suc drop_0 log_max_lines_def)
qed

theorem log_buffer_bounded_fifo_witness:
  "length (replicate 1000 [111::nat]) \<le> log_max_lines
   \<and> length (replicate 1000 [111::nat]) = log_max_lines
   \<and> kept_lines decode_default [[0x41, 0x0A]] = [[65]]
   \<and> log_reader_step decode_default (replicate 1000 [111]) [0x41, 0x0A]
       = replicate 999 [111] @ [[65]]
   \<and> length (log_reader_loop decode_default (replicate 1000 [111]) [[0x41, 0x0A], [0x0A]]) \<le> 1000"
proof -
  have k: "kept_lines decode_default [[0x41, 0x0A]] = [[65]]"
    by (simp add: kept_lines_def decode_default_def utf8_first_def ustrip_def strip_by_def
        py_isspace_def)
  have n: "length (replicate 1000 [111::nat]) = log_max_lines"
    by (simp add: log_max_lines_def)
  have t: "tl (replicate 1000 [111::nat]) = replicate 999 [111]"
    by (simp add: tl_replicate)
  show ?thesis
    using log_buffer_bounded_fifo [of "replicate 1000 [111]" decode_default
        "[[0x41, 0x0A], [0x0A]]" "[0x41, 0x0A]" "[65]"] k n t
    by (simp add: log_max_lines_def)
qed

subsection \<open>C4: starting while a server runs\<close>

text \<open>
  Claim C4. In every state with a server process, \<open>start_server\<close> returns the message
  "Server already running. Press 'K' first." and leaves the whole state, with the server
  handle, the path of the running model and the log buffer, as it was; no process is
  spawned. The scheduler does not even call it in such a state.
\<close>

theorem start_server_already_running:
  "server_process s = Some p \<Longrightarrow>
     start_server e s = Inr (''Server already running. Press 'K' first.'', s)
     \<and> check_schedule e s = Inr s"
  by (simp add: start_server_def check_schedule_def)

theorem start_server_already_running_witness:
  "server_process example_serving = Some \<lparr>pid = 4242\<rparr>
   \<and> start_server example_env example_serving
       = Inr (''Server already running. Press 'K' first.'', example_serving)"
  using start_server_already_running [of example_serving "\<lparr>pid = 4242\<rparr>" example_env]
  by (simp add: example_serving_def)

subsection \<open>C5: stopping a running server\<close>

text \<open>
  Claim C5. With a server running, \<open>kill_server\<close> clears the server handle and the path
  of the running model and empties the log buffer when the signal to the process group
  followed by the wait succeeds, and also when that fails and the direct terminate
  followed by the wait succeeds. Only when both fail does it return an error message,
  with the text of the first failure, and then the state is left as it was, still running.
\<close>

theorem kill_server_running:
  "server_process s = Some p \<Longrightarrow>
     (killpg_wait e = None \<longrightarrow>
        kill_server e s = (''Server stopped and cache cleared.'',
          s\<lparr>server_process := None, running_model_path := None, log_buffer := []\<rparr>))
     \<and> (killpg_wait e = Some err \<and> terminate_wait e \<longrightarrow>
        kill_server e s = (''Server stopped (fallback).'',
          s\<lparr>server_process := None, running_model_path := None, log_buffer := []\<rparr>))
     \<and> (killpg_wait e = Some err \<and> \<not> terminate_wait e \<longrightarrow>
        kill_server e s = (''Error stopping: '' @ err, s))"
  by (simp add: kill_server_def)

theorem kill_server_running_witness:
  "server_process example_serving = Some \<lparr>pid = 4242\<rparr>
   \<and> killpg_wait example_env = None
   \<and> kill_server example_env example_serving
       = (''Server stopped and cache cleared.'', example_idle)
   \<and> kill_server (example_env\<lparr>killpg_wait := Some ''timed out''\<rparr>) example_serving
       = (''Server stopped (fallback).'', example_idle)
   \<and> kill_server (example_env\<lparr>killpg_wait := Some ''timed out'', terminate_wait := False\<rparr>)
         example_serving
       = (''Error stopping: timed out'', example_serving)"
  using kill_server_running [of example_serving "\<lparr>pid = 4242\<rparr>" example_env]
    kill_server_running [of example_serving "\<lparr>pid = 4242\<rparr>"
      "example_env\<lparr>killpg_wait := Some ''timed out''\<rparr>" "''timed out''"]
    kill_server_running [of example_serving "\<lparr>pid = 4242\<rparr>"
      "example_env\<lparr>killpg_wait := Some ''timed out'', terminate_wait := False\<rparr>" "''timed out''"]
  by (simp add: example_serving_def example_env_def example_idle_def)

subsection \<open>C6: stopping when no server runs\<close>

text \<open>
  Claim C6. In every state without a server process, \<open>kill_server\<close> returns the message
  "No server running." and the state unchanged; it raises nothing.
\<close>

theorem kill_server_not_running:
  "server_process s = None \<Longrightarrow> kill_server e s = (''No server running.'', s)"
  by (simp add: kill_server_def)

theorem kill_server_not_running_witness:
  "server_process example_idle = None
   \<and> kill_server example_env example_idle = (''No server running.'', example_idle)"
  using kill_server_not_running [of example_idle example_env]
  by (simp add: example_idle_def)

subsection \<open>C9: what the reader does with one line\<close>

text \<open>
  Claim C9 says that every line read is appended once decoded. A line that is empty once
  stripped is not: the line feed alone decodes to a line feed, and nothing is appended.
\<close>

theorem log_reader_blank_line_counterexample:
  "decode_default [0x0A] = Inr [10] \<and> log_reader_step decode_default [] [0x0A] = []"
  by (simp add: log_reader_step_def decode_default_def utf8_first_def ustrip_def strip_by_def
        py_isspace_def)

text \<open>
  Claim C9, amended. For every line read and every codec: when the line decodes, the
  decoded text stripped of the white space around it is appended to the buffer, as its
  last entry, unless nothing is left of it, and then the buffer is unchanged; when
  decoding raises, the line is dropped and the buffer is unchanged. In each case the loop
  goes on with the lines that follow, so no line ends the task.
\<close>

theorem log_reader_step_cases:
  "(decode line = Inr d \<and> ustrip d \<noteq> [] \<longrightarrow>
      log_reader_step decode buf line
        = (if length buf < log_max_lines then buf @ [ustrip d] else tl (buf @ [ustrip d]))
      \<and> last (log_reader_step decode buf line) = ustrip d)
   \<and> (decode line = Inr d \<and> ustrip d = [] \<longrightarrow> log_reader_step decode buf line = buf)
   \<and> (decode line = Inl err \<longrightarrow> log_reader_step decode buf line = buf)
   \<and> log_reader_loop decode buf (before @ line # after)
       = log_reader_loop decode (log_reader_step decode (log_reader_loop decode buf before) line) after"
  by (cases buf) (auto simp: log_reader_step_def log_reader_loop_def Let_def log_max_lines_def)

theorem log_reader_step_cases_witness:
  "decode_default [0x20, 0x41, 0x0A] = Inr [32, 65, 10] \<and> ustrip [32, 65, 10] = [65]
   \<and> log_reader_step decode_default [[111, 107]] [0x20, 0x41, 0x0A] = [[111, 107], [65]]
   \<and> decode_default [0x0A] = Inr [10] \<and> ustrip [10] = []
   \<and> log_reader_step decode_default [[111, 107]] [0x0A] = [[111, 107]]
   \<and> log_reader_step (\<lambda>line. Inl UnicodeError) [[111, 107]] [0xFF] = [[111, 107]]"
  using log_reader_step_cases [of decode_default "[0x20, 0x41, 0x0A]" "[32, 65, 10]"
      "[[111, 107]]" UnicodeError "[]" "[]"]
    log_reader_step_cases [of decode_default "[0x0A]" "[10]" "[[111, 107]]" UnicodeError "[]" "[]"]
    log_reader_step_cases [of "\<lambda>line. Inl UnicodeError" "[0xFF]" "[]" "[[111, 107]]"
      UnicodeError "[]" "[]"]
  by (simp add: decode_default_def utf8_first_def ustrip_def strip_by_def py_isspace_def
      log_max_lines_def)

subsection \<open>C7: the time of the schedule\<close>

lemma spec_grammar_shape:
  assumes "spec_hhmm_grammar t"
  obtains h1 h2 m1 m2 where "t = [h1, h2, CHR '':'', m1, m2]"
    "(h1 \<in> set ''01'' \<and> is_digit_char h2) \<or> (h1 = CHR ''2'' \<and> h2 \<in> set ''0123'')"
    "m1 \<in> set ''012345''" "is_digit_char m2"
  using assms unfolding spec_hhmm_grammar_def
  by (simp split: list.splits)

text \<open>Every text of the form HH:MM is accepted by \<open>strptime\<close>; the converse fails.\<close>

lemma spec_grammar_accepted: "spec_hhmm_grammar t \<Longrightarrow> strptime_HM t = Inr ()"
proof -
  assume "spec_hhmm_grammar t"
  then obtain h1 h2 m1 m2 where t: "t = [h1, h2, CHR '':'', m1, m2]"
    and h: "(h1 \<in> set ''01'' \<and> is_digit_char h2) \<or> (h1 = CHR ''2'' \<and> h2 \<in> set ''0123'')"
    and m: "m1 \<in> set ''012345''" "is_digit_char m2"
    by (rule spec_grammar_shape)
  from m have rm: "re_M [m1, m2] \<noteq> [] \<and> hd (re_M [m1, m2]) = []"
    by (simp add: re_M_def)
  from h have rh: "re_H t \<noteq> [] \<and> hd (re_H t) = [CHR '':'', m1, m2]"
    unfolding t re_H_def by auto
  have "concat (map re_M (re_colon [CHR '':'', m1, m2])) = re_M [m1, m2]"
    by (simp add: re_colon_def)
  with rh rm have "re_HM t \<noteq> [] \<and> hd (re_HM t) = []"
    unfolding re_HM_def by (cases "re_H t") auto
  then show ?thesis
    by (cases "re_HM t") (auto simp: strptime_HM_def)
qed

lemma strptime_examples:
  "strptime_HM ''25:61'' = Inl ValueError" "strptime_HM ''08:00'' = Inr ()"
  by (simp_all add: strptime_HM_def re_HM_def re_H_def re_M_def re_colon_def is_digit_char_def)

text \<open>With the schedule off, the field stores the time and switches the schedule on exactly
  when \<open>strptime\<close> accepts the text; otherwise only the status line changes.\<close>

lemma edit_schedule_flow:
  "\<not> schedule_active (attrs s) \<Longrightarrow>
     (strptime_HM (input_string e ''08:00'') = Inl ValueError \<longrightarrow>
        edit_schedule e s = s\<lparr>msg_log := ''Invalid time format. Use HH:MM''\<rparr>)
     \<and> (strptime_HM (input_string e ''08:00'') = Inr () \<longrightarrow>
        schedule_active (attrs (edit_schedule e s))
        \<and> schedule_time (attrs (edit_schedule e s)) = input_string e ''08:00'')"
  by (simp add: edit_schedule_def Let_def save_settings_def sync_attributes_to_config_def
      split: write_result.splits)

text \<open>
  Claim C7 says that a text which the grammar "HH:MM" rejects leaves the schedule off. The
  text \<open>8:5\<close> is not of the form HH:MM, yet \<open>strptime\<close> takes one digit for \<open>%H\<close> and for
  \<open>%M\<close>: with the schedule off, the ENTER key on the schedule field with this text stores
  \<open>8:5\<close> as the schedule time, switches the schedule on and reports "Scheduled for 8:5".
  The scheduler compares the time with the clock as text; the clock reads \<open>08:05\<close> at that
  minute, so the start never happens.
\<close>

theorem schedule_accepts_short_time:
  "\<not> spec_hhmm_grammar ''8:5''
   \<and> \<not> schedule_active (attrs example_idle)
   \<and> (case on_enter (example_env\<lparr>key := 10, getstr := Some ''8:5''\<rparr>)
              (example_idle\<lparr>active_field := 9\<rparr>) of
        Inl err \<Rightarrow> False
      | Inr s' \<Rightarrow>
          schedule_active (attrs s') \<and> schedule_time (attrs s') = ''8:5''
          \<and> msg_log s' = ''Scheduled for 8:5''
          \<and> check_schedule (example_env\<lparr>now := ''08:05''\<rparr>) s' = Inr s')"
  by (simp add: spec_hhmm_grammar_def strptime_HM_def re_HM_def re_H_def re_M_def re_colon_def
      is_digit_char_def on_enter_def edit_schedule_def input_string_def py_strip_def strip_by_def
      py_isspace_def save_settings_def sync_attributes_to_config_def example_env_def
      example_idle_def example_settings_def check_schedule_def Let_def)

subsection \<open>C8: loading the settings\<close>

lemma save_settings_attrs [simp]: "attrs (save_settings e s) = attrs s"
  by (simp add: save_settings_def sync_attributes_to_config_def Let_def split: write_result.splits)

lemma save_settings_config [simp]: "config (save_settings e s) = attrs s"
  by (simp add: save_settings_def sync_attributes_to_config_def Let_def split: write_result.splits)

lemma save_settings_file:
  "settings_file (save_settings e s)
     = (case write_settings e of
          WriteOk \<Rightarrow> Some (Dict (dump (attrs s)))
        | OpenFailed \<Rightarrow> settings_file s
        | DumpFailed \<Rightarrow> Some Garbage)"
  by (simp add: save_settings_def sync_attributes_to_config_def Let_def split: write_result.splits)

lemma load_settings_absent:
  assumes "settings_file s = None \<or> settings_file s = Some Garbage"
  shows "attrs (load_settings e s) = attrs s"
    and "settings_file (load_settings e s)
           = (case write_settings e of
                WriteOk \<Rightarrow> Some (Dict (dump (attrs s)))
              | OpenFailed \<Rightarrow> settings_file s
              | DumpFailed \<Rightarrow> Some Garbage)"
  using assms
  by (auto simp: load_settings_def Let_def save_settings_file split: write_result.splits)

lemma load_settings_dict:
  assumes "settings_file s = Some (Dict p)"
  shows "attrs (load_settings e s) = overlay p (config s)"
  using assms
  by (simp add: load_settings_def Let_def sync_config_to_attributes_def)

lemma init_tui_absent:
  assumes "disk = None \<or> disk = Some Garbage"
  shows "attrs (init_tui e disk) = default_settings e"
    and "write_settings e = WriteOk \<Longrightarrow>
           settings_file (init_tui e disk) = Some (Dict (dump (default_settings e)))"
proof -
  define s0 where "s0 = \<lparr>running = True, server_process = None, running_model_path = None,
               log_buffer = [], show_log = False, show_nvidia_smi = False,
               config = default_settings e, attrs = default_settings e,
               active_field = 0, selected_file_idx = 0, file_offset = 0, files = [],
               msg_log = [], settings_file = disk\<rparr>"
  have a: "settings_file (sync_config_to_attributes s0) = None
           \<or> settings_file (sync_config_to_attributes s0) = Some Garbage"
    using assms by (simp add: s0_def sync_config_to_attributes_def)
  have b: "attrs (sync_config_to_attributes s0) = default_settings e"
    by (simp add: s0_def sync_config_to_attributes_def)
  have r: "attrs (refresh_file_list e t) = attrs t"
          "settings_file (refresh_file_list e t) = settings_file t" for t
    by (simp_all add: refresh_file_list_def Let_def)
  show "attrs (init_tui e disk) = default_settings e"
    unfolding init_tui_def s0_def [symmetric] Let_def
    by (simp add: r load_settings_absent(1) [OF a] b)
  show "settings_file (init_tui e disk) = Some (Dict (dump (default_settings e)))"
    if "write_settings e = WriteOk"
    unfolding init_tui_def s0_def [symmetric] Let_def
    using that by (simp add: r load_settings_absent(2) [OF a] b)
qed

lemma overlay_dump: "overlay (dump c) d = c"
  by (simp add: overlay_def dump_def dict_get_def)

lemma dump_keys:
  "p_model_dir (dump c) = Some (model_dir c)" "p_backend (dump c) = Some (backend c)"
  "p_host_ip (dump c) = Some (host_ip c)" "p_port (dump c) = Some (port c)"
  "p_allow_lan (dump c) = Some (allow_lan c)" "p_gpu_layers (dump c) = Some (gpu_layers c)"
  "p_n_threads (dump c) = Some (n_threads c)" "p_context_size (dump c) = Some (context_size c)"
  "p_schedule_time (dump c) = Some (schedule_time c)"
  "p_schedule_active (dump c) = Some (schedule_active c)"
  "p_llama_server_dir (dump c) = Some (llama_server_dir c)"
  by (simp_all add: dump_def)

lemma load_settings_config: "config (load_settings e s) = attrs (load_settings e s)"
  by (simp add: load_settings_def Let_def)

lemma load_settings_written:
  "write_settings e = WriteOk \<Longrightarrow>
     settings_file (load_settings e s) = Some (Dict (dump (attrs (load_settings e s))))"
  by (simp add: load_settings_def Let_def save_settings_file)

lemma load_settings_again:
  assumes "write_settings e = WriteOk"
  shows "attrs (load_settings e' (load_settings e s)) = attrs (load_settings e s)"
  using load_settings_dict [OF load_settings_written [OF assms, of s], of e']
  by (simp add: load_settings_config overlay_dump)

text \<open>
  Claim C8 says that on an absent or unparsable settings file the default configuration
  is persisted at once. \<open>save_settings\<close> swallows every failure of the write: when the file
  is absent and cannot be opened for writing, the configuration is the default one and
  there is still no file, from \<open>load_settings\<close> and from \<open>__init__\<close> alike.
\<close>

theorem load_settings_unwritable_counterexample:
  "settings_file example_idle = None
   \<and> attrs (load_settings (example_env\<lparr>write_settings := OpenFailed\<rparr>) example_idle)
       = example_settings
   \<and> settings_file (load_settings (example_env\<lparr>write_settings := OpenFailed\<rparr>) example_idle)
       = None
   \<and> settings_file (init_tui (example_env\<lparr>write_settings := OpenFailed\<rparr>) None) = None"
  by (simp add: load_settings_def save_settings_def sync_attributes_to_config_def
      sync_config_to_attributes_def init_tui_def refresh_file_list_def example_idle_def
      example_env_def Let_def)

text \<open>
  Claim C8, amended. \<open>load_settings\<close> is called with the attributes equal to the
  dictionary of defaults (in \<open>__init__\<close> these are \<open>default_settings\<close>). When the settings
  file is absent or cannot be parsed, the configuration afterwards is the default one and
  \<open>save_settings\<close> is called on it at once. When that write succeeds the file holds every
  one of the eleven keys with its default value, so that reading it back over any
  configuration gives the defaults again; when the file cannot be opened it is left as it
  was, and when \<open>pickle.dump\<close> fails it is left unreadable, both without an error. When the
  file parses, each key has the value of the file where the file has the key and the
  default where it has not. After any load whose write succeeds, loading again gives the
  same configuration.
\<close>

theorem load_settings_fallback:
  "attrs s = config s \<Longrightarrow>
    (settings_file s = None \<or> settings_file s = Some Garbage \<longrightarrow>
       attrs (load_settings e s) = config s \<and> config (load_settings e s) = config s
       \<and> (write_settings e = WriteOk \<longrightarrow>
            settings_file (load_settings e s) = Some (Dict (dump (config s)))
            \<and> p_model_dir (dump (config s)) = Some (model_dir (config s))
            \<and> p_backend (dump (config s)) = Some (backend (config s))
            \<and> p_host_ip (dump (config s)) = Some (host_ip (config s))
            \<and> p_port (dump (config s)) = Some (port (config s))
            \<and> p_allow_lan (dump (config s)) = Some (allow_lan (config s))
            \<and> p_gpu_layers (dump (config s)) = Some (gpu_layers (config s))
            \<and> p_n_threads (dump (config s)) = Some (n_threads (config s))
            \<and> p_context_size (dump (config s)) = Some (context_size (config s))
            \<and> p_schedule_time (dump (config s)) = Some (schedule_time (config s))
            \<and> p_schedule_active (dump (config s)) = Some (schedule_active (config s))
            \<and> p_llama_server_dir (dump (config s)) = Some (llama_server_dir (config s))
            \<and> overlay (dump (config s)) d = config s)
       \<and> (write_settings e = OpenFailed \<longrightarrow>
            settings_file (load_settings e s) = settings_file s)
       \<and> (write_settings e = DumpFailed \<longrightarrow>
            settings_file (load_settings e s) = Some Garbage))
    \<and> (settings_file s = Some (Dict p) \<longrightarrow>
       model_dir (attrs (load_settings e s))
         = (case p_model_dir p of Some v \<Rightarrow> v | None \<Rightarrow> model_dir (config s))
       \<and> backend (attrs (load_settings e s))
         = (case p_backend p of Some v \<Rightarrow> v | None \<Rightarrow> backend (config s))
       \<and> host_ip (attrs (load_settings e s))
         = (case p_host_ip p of Some v \<Rightarrow> v | None \<Rightarrow> host_ip (config s))
       \<and> port (attrs (load_settings e s))
         = (case p_port p of Some v \<Rightarrow> v | None \<Rightarrow> port (config s))
       \<and> allow_lan (attrs (load_settings e s))
         = (case p_allow_lan p of Some v \<Rightarrow> v | None \<Rightarrow> allow_lan (config s))
       \<and> gpu_layers (attrs (load_settings e s))
         = (case p_gpu_layers p of Some v \<Rightarrow> v | None \<Rightarrow> gpu_layers (config s))
       \<and> n_threads (attrs (load_settings e s))
         = (case p_n_threads p of Some v \<Rightarrow> v | None \<Rightarrow> n_threads (config s))
       \<and> context_size (attrs (load_settings e s))
         = (case p_context_size p of Some v \<Rightarrow> v | None \<Rightarrow> context_size (config s))
       \<and> schedule_time (attrs (load_settings e s))
         = (case p_schedule_time p of Some v \<Rightarrow> v | None \<Rightarrow> schedule_time (config s))
       \<and> schedule_active (attrs (load_settings e s))
         = (case p_schedule_active p of Some v \<Rightarrow> v | None \<Rightarrow> schedule_active (config s))
       \<and> llama_server_dir (attrs (load_settings e s))
         = (case p_llama_server_dir p of Some v \<Rightarrow> v | None \<Rightarrow> llama_server_dir (config s))
       \<and> config (load_settings e s) = attrs (load_settings e s))
    \<and> (write_settings e = WriteOk \<longrightarrow>
       attrs (load_settings e' (load_settings e s)) = attrs (load_settings e s))
    \<and> (disk = None \<or> disk = Some Garbage \<longrightarrow>
       attrs (init_tui e disk) = default_settings e
       \<and> (write_settings e = WriteOk \<longrightarrow>
            settings_file (init_tui e disk) = Some (Dict (dump (default_settings e)))
            \<and> overlay (dump (default_settings e)) d = default_settings e))"
proof (intro conjI impI)
  assume eq: "attrs s = config s"
  have c: "config (load_settings e s) = attrs (load_settings e s)"
    by (rule load_settings_config)
  {
    assume a: "settings_file s = None \<or> settings_file s = Some Garbage"
    show "attrs (load_settings e s) = config s"
      using load_settings_absent(1) [OF a] eq by simp
    then show "config (load_settings e s) = config s"
      using c by simp
    show "settings_file (load_settings e s) = Some (Dict (dump (config s)))"
      if "write_settings e = WriteOk"
      using load_settings_absent(2) [OF a, of e] that eq by simp
    show "settings_file (load_settings e s) = settings_file s"
      if "write_settings e = OpenFailed"
      using load_settings_absent(2) [OF a, of e] that by simp
    show "settings_file (load_settings e s) = Some Garbage"
      if "write_settings e = DumpFailed"
      using load_settings_absent(2) [OF a, of e] that by simp
  }
  show "p_model_dir (dump (config s)) = Some (model_dir (config s))"
    "p_backend (dump (config s)) = Some (backend (config s))"
    "p_host_ip (dump (config s)) = Some (host_ip (config s))"
    "p_port (dump (config s)) = Some (port (config s))"
    "p_allow_lan (dump (config s)) = Some (allow_lan (config s))"
    "p_gpu_layers (dump (config s)) = Some (gpu_layers (config s))"
    "p_n_threads (dump (config s)) = Some (n_threads (config s))"
    "p_context_size (dump (config s)) = Some (context_size (config s))"
    "p_schedule_time (dump (config s)) = Some (schedule_time (config s))"
    "p_schedule_active (dump (config s)) = Some (schedule_active (config s))"
    "p_llama_server_dir (dump (config s)) = Some (llama_server_dir (config s))"
    by (rule dump_keys)+
  show "overlay (dump (config s)) d = config s"
    by (rule overlay_dump)
  show "overlay (dump (default_settings e)) d = default_settings e"
    by (rule overlay_dump)
  {
    assume d: "settings_file s = Some (Dict p)"
    note o = load_settings_dict [OF d, of e]
    show "model_dir (attrs (load_settings e s))
         = (case p_model_dir p of Some v \<Rightarrow> v | None \<Rightarrow> model_dir (config s))"
      unfolding o by (simp add: overlay_def dict_get_def)
    show "backend (attrs (load_settings e s))
         = (case p_backend p of Some v \<Rightarrow> v | None \<Rightarrow> backend (config s))"
      unfolding o by (simp add: overlay_def dict_get_def)
    show "host_ip (attrs (load_settings e s))
         = (case p_host_ip p of Some v \<Rightarrow> v | None \<Rightarrow> host_ip (config s))"
      unfolding o by (simp add: overlay_def dict_get_def)
    show "port (attrs (load_settings e s))
         = (case p_port p of Some v \<Rightarrow> v | None \<Rightarrow> port (config s))"
      unfolding o by (simp add: overlay_def dict_get_def)
    show "allow_lan (attrs (load_settings e s))
         = (case p_allow_lan p of Some v \<Rightarrow> v | None \<Rightarrow> allow_lan (config s))"
      unfolding o by (simp add: overlay_def dict_get_def)
    show "gpu_layers (attrs (load_settings e s))
         = (case p_gpu_layers p of Some v \<Rightarrow> v | None \<Rightarrow> gpu_layers (config s))"
      unfolding o by (simp add: overlay_def dict_get_def)
    show "n_threads (attrs (load_settings e s))
         = (case p_n_threads p of Some v \<Rightarrow> v | None \<Rightarrow> n_threads (config s))"
      unfolding o by (simp add: overlay_def dict_get_def)
    show "context_size (attrs (load_settings e s))
         = (case p_context_size p of Some v \<Rightarrow> v | None \<Rightarrow> context_size (config s))"
      unfolding o by (simp add: overlay_def dict_get_def)
    show "schedule_time (attrs (load_settings e s))
         = (case p_schedule_time p of Some v \<Rightarrow> v | None \<Rightarrow> schedule_time (config s))"
      unfolding o by (simp add: overlay_def dict_get_def)
    show "schedule_active (attrs (load_settings e s))
         = (case p_schedule_active p of Some v \<Rightarrow> v | None \<Rightarrow> schedule_active (config s))"
      unfolding o by (simp add: overlay_def dict_get_def)
    show "llama_server_dir (attrs (load_settings e s))
         = (case p_llama_server_dir p of Some v \<Rightarrow> v | None \<Rightarrow> llama_server_dir (config s))"
      unfolding o by (simp add: overlay_def dict_get_def)
    show "config (load_settings e s) = attrs (load_settings e s)"
      by (rule c)
  }
  show "attrs (load_settings e' (load_settings e s)) = attrs (load_settings e s)"
    if "write_settings e = WriteOk"
    using that by (rule load_settings_again)
  {
    assume a: "disk = None \<or> disk = Some Garbage"
    show "attrs (init_tui e disk) = default_settings e"
      by (rule init_tui_absent(1) [OF a])
    show "settings_file (init_tui e disk) = Some (Dict (dump (default_settings e)))"
      if "write_settings e = WriteOk"
      using that by (rule init_tui_absent(2) [OF a])
  }
qed

theorem load_settings_fallback_witness:
  "attrs example_idle = config example_idle \<and> settings_file example_idle = None
   \<and> write_settings example_env = WriteOk
   \<and> attrs (load_settings example_env example_idle) = example_settings
   \<and> settings_file (load_settings example_env example_idle) = Some (Dict (dump example_settings))
   \<and> p_port (dump example_settings) = Some ''8080''
   \<and> overlay (dump example_settings) (default_settings example_env) = example_settings
   \<and> settings_file (load_settings (example_env\<lparr>write_settings := OpenFailed\<rparr>) example_idle) = None
   \<and> settings_file (load_settings (example_env\<lparr>write_settings := DumpFailed\<rparr>) example_idle)
       = Some Garbage
   \<and> settings_file (example_idle\<lparr>settings_file := Some (Dict example_partial)\<rparr>)
       = Some (Dict example_partial)
   \<and> backend (attrs (load_settings example_env
                 (example_idle\<lparr>settings_file := Some (Dict example_partial)\<rparr>))) = ''CUDA''
   \<and> port (attrs (load_settings example_env
                 (example_idle\<lparr>settings_file := Some (Dict example_partial)\<rparr>))) = ''9000''
   \<and> host_ip (attrs (load_settings example_env
                 (example_idle\<lparr>settings_file := Some (Dict example_partial)\<rparr>))) = ''0.0.0.0''
   \<and> attrs (load_settings example_env (load_settings example_env example_idle)) = example_settings
   \<and> attrs (init_tui example_env None) = default_settings example_env
   \<and> settings_file (init_tui example_env None) = Some (Dict (dump (default_settings example_env)))"
  using load_settings_fallback [of example_idle example_env "default_settings example_env"
      example_partial example_env None]
    load_settings_fallback [of example_idle "example_env\<lparr>write_settings := OpenFailed\<rparr>"
      "default_settings example_env" example_partial example_env None]
    load_settings_fallback [of example_idle "example_env\<lparr>write_settings := DumpFailed\<rparr>"
      "default_settings example_env" example_partial example_env None]
    load_settings_fallback [of "example_idle\<lparr>settings_file := Some (Dict example_partial)\<rparr>"
      example_env "default_settings example_env" example_partial example_env None]
  by (simp add: example_idle_def example_env_def example_partial_def example_settings_def)

subsection \<open>C10: the cursor stays inside the list\<close>

lemma save_settings_ui [simp]:
  "files (save_settings e s) = files s"
  "selected_file_idx (save_settings e s) = selected_file_idx s"
  by (simp_all add: save_settings_def sync_attributes_to_config_def Let_def
      split: write_result.splits)

lemma save_settings_ok [simp]: "selection_ok (save_settings e s) = selection_ok s"
  by (simp add: selection_ok_def)

lemma kill_server_ui [simp]:
  "files (snd (kill_server e s)) = files s"
  "selected_file_idx (snd (kill_server e s)) = selected_file_idx s"
  by (simp_all add: kill_server_def split: option.splits)

lemma start_server_ui:
  "start_server e s = Inr (m, s') \<Longrightarrow>
     files s' = files s \<and> selected_file_idx s' = selected_file_idx s"
  by (auto simp: start_server_def Let_def split: if_splits sum.splits popen_result.splits)

lemma start_and_report_ok:
  "start_and_report e s = Inr s' \<Longrightarrow> selection_ok s \<Longrightarrow> selection_ok s'"
  by (auto simp: start_and_report_def selection_ok_def split: sum.splits dest!: start_server_ui)

lemma check_schedule_ok:
  "check_schedule e s = Inr s' \<Longrightarrow> selection_ok s \<Longrightarrow> selection_ok s'"
  by (auto simp: check_schedule_def split: if_splits dest: start_and_report_ok)

lemma edit_server_dir_ui [simp]:
  "files (edit_server_dir e s) = files s"
  "selected_file_idx (edit_server_dir e s) = selected_file_idx s"
  by (simp_all add: edit_server_dir_def Let_def)

lemma edit_schedule_ui [simp]:
  "files (edit_schedule e s) = files s"
  "selected_file_idx (edit_schedule e s) = selected_file_idx s"
  by (simp_all add: edit_schedule_def Let_def split: sum.splits)

lemma edit_number_ui:
  assumes "\<And>n t. files (store n t) = files t"
    and "\<And>n t. selected_file_idx (store n t) = selected_file_idx t"
  shows "files (edit_number e cur lo store dm lm s) = files s"
    and "selected_file_idx (edit_number e cur lo store dm lm s) = selected_file_idx s"
  by (simp_all add: edit_number_def Let_def assms split: option.splits)

lemma refresh_file_list_ok:
  "0 \<le> selected_file_idx s \<Longrightarrow> selection_ok (refresh_file_list e s)"
proof -
  have "xs \<noteq> []" if "sort_key path_name xs \<noteq> []" for xs :: "string list"
    using that by auto
  then show "0 \<le> selected_file_idx s \<Longrightarrow> selection_ok (refresh_file_list e s)"
    by (auto simp: refresh_file_list_def Let_def selection_ok_def)
qed

lemma on_enter_other_fields:
  "on_enter e s = Inr s' \<Longrightarrow> active_field s \<noteq> 1 \<Longrightarrow>
     files s' = files s \<and> selected_file_idx s' = selected_file_idx s"
  unfolding on_enter_def
  by (auto simp: edit_number_ui split: if_splits sum.splits)

lemma on_enter_model_dir:
  "on_enter e s = Inr s' \<Longrightarrow> active_field s = 1 \<Longrightarrow> selection_ok s \<Longrightarrow> selection_ok s'"
proof -
  assume a: "on_enter e s = Inr s'" "active_field s = 1" "selection_ok s"
  let ?t = "s\<lparr>attrs := (attrs s)\<lparr>model_dir := abspath e (input_string e (model_dir (attrs s)))\<rparr>\<rparr>"
  have "selection_ok (refresh_file_list e ?t)"
    using a(3) by (intro refresh_file_list_ok) (simp add: selection_ok_def)
  then have "selection_ok (save_settings e ((refresh_file_list e ?t)\<lparr>msg_log := ''Directory updated.''\<rparr>))"
    by (simp add: selection_ok_def)
  with a show ?thesis
    by (auto simp: on_enter_def Let_def selection_ok_def split: if_splits)
qed

lemma on_enter_ok:
  "on_enter e s = Inr s' \<Longrightarrow> selection_ok s \<Longrightarrow> selection_ok s'"
  using on_enter_model_dir [of e s s'] on_enter_other_fields [of e s s']
  by (cases "active_field s = 1") (auto simp: selection_ok_def)

lemma kill_server_pair_ui:
  "kill_server e s = (m, s') \<Longrightarrow>
     files s' = files s \<and> selected_file_idx s' = selected_file_idx s"
  using kill_server_ui [of e s] by simp

lemma dispatch_key_ok:
  "dispatch_key e s = Inr s' \<Longrightarrow> selection_ok s \<Longrightarrow> selection_ok s'"
  unfolding dispatch_key_def Let_def
  by (auto split: if_splits prod.splits dest: on_enter_ok start_and_report_ok)
    (auto simp: selection_ok_def dest!: kill_server_pair_ui)

lemma run_iter_ok:
  "run_iter e s = Inr s' \<Longrightarrow> selection_ok s \<Longrightarrow> selection_ok s'"
proof -
  assume a: "run_iter e s = Inr s'" "selection_ok s"
  have o: "selection_ok (s\<lparr>file_offset := x\<rparr>)" for x
    using a(2) by (simp add: selection_ok_def)
  from a show ?thesis
    unfolding run_iter_def Let_def
    by (auto split: if_splits sum.splits dest!: check_schedule_ok dispatch_key_ok simp: o)
      (auto simp: selection_ok_def)
qed

lemma init_tui_ok: "selection_ok (init_tui e disk)"
  unfolding init_tui_def Let_def
  by (rule refresh_file_list_ok) simp

lemma reachable_selection_ok: "reachable s \<Longrightarrow> selection_ok s"
proof (induction rule: reachable.induct)
  case (reach_init e disk)
  show ?case by (rule init_tui_ok)
next
  case (reach_iter s e s')
  then show ?case by (auto dest: run_iter_ok)
next
  case (reach_log s decode lines)
  then show ?case by (simp add: selection_ok_def)
qed

lemma start_server_no_index_error:
  "selection_ok s \<Longrightarrow> \<exists>r. start_server e s = Inr r"
  by (auto simp: start_server_def selection_ok_def py_index_def Let_def split: popen_result.splits)

text \<open>
  Claim C10. In every state the program reaches, the cursor of the model list is not
  negative and, whenever the list is not empty, below its length, so that the read
  \<open>self.files[self.selected_file_idx]\<close> of \<open>start_server\<close> yields the entry under the
  cursor; and \<open>start_server\<close> never raises \<open>IndexError\<close> there, whatever the environment
  answers: the arrow keys check the bounds, a successful refresh resets the cursor to 0,
  and an empty list is rejected before the subscript.
\<close>

theorem selection_in_bounds:
  "reachable s \<Longrightarrow>
     0 \<le> selected_file_idx s
     \<and> (files s \<noteq> [] \<longrightarrow>
          selected_file_idx s < int (length (files s))
          \<and> py_index (files s) (selected_file_idx s) = Inr (files s ! nat (selected_file_idx s)))
     \<and> (\<forall>e. \<exists>r. start_server e s = Inr r)"
  using reachable_selection_ok [of s] start_server_no_index_error [of s]
  by (auto simp: selection_ok_def py_index_def)

theorem selection_in_bounds_witness:
  "reachable (init_tui example_env None)
   \<and> files (init_tui example_env None) = [''/models/a.gguf'', ''/models/b.gguf'']
   \<and> selected_file_idx (init_tui example_env None) = 0
   \<and> py_index (files (init_tui example_env None)) (selected_file_idx (init_tui example_env None))
       = Inr ''/models/a.gguf''
   \<and> (\<exists>r. start_server example_env (init_tui example_env None) = Inr r)"
proof -
  have f: "files (init_tui example_env None) = [''/models/a.gguf'', ''/models/b.gguf'']"
    by code_simp
  have i: "selected_file_idx (init_tui example_env None) = 0"
    by code_simp
  have r: "reachable (init_tui example_env None)"
    by (rule reach_init)
  show ?thesis
    using selection_in_bounds [OF r] r f i by simp
qed

end
